theory Spec2Isabelle
  imports Complex_Main
begin

section \<open>Data model of the MAA remote-control plugin (src/main.py)\<close>

text \<open>
  Python \<open>str\<close> values are modelled as \<open>string\<close>; the code only compares them, tests them
  for emptiness, slices a prefix and takes their length. A task is the dict
  \<open>{"id", "type", "params"?}\<close> built in \<open>_add_task\<close> and the head-insert commands; the
  \<open>params\<close> key is present only when a non-empty parameter string was given.
\<close>

record task =
  tid :: string
  ttype :: string
  tparams :: "string option"

text \<open>The value stored in \<open>self.bindings[sender_id]\<close> by \<open>maa_bind\<close>.\<close>

record binding =
  device_id :: string
  user_id :: string
  umo :: string

text \<open>
  The instance attributes of \<open>MAAPlugin\<close> that the handlers read and write. The dicts are
  partial maps; a missing key is \<open>None\<close>. Timestamps are the values of \<open>time.time()\<close>,
  which the handlers receive from the environment.
\<close>

record plugin =
  auto_screenshot :: bool
  bindings :: "string \<rightharpoonup> binding"
  device_to_sender :: "string \<rightharpoonup> string"
  task_queues :: "string \<rightharpoonup> task list"
  executed_tasks :: "string \<rightharpoonup> string set"
  device_last_seen :: "string \<rightharpoonup> real"

text \<open>\<open>__init__\<close> when no bindings file exists: every dict is empty.\<close>

definition init :: "bool \<Rightarrow> plugin" where
  "init auto = \<lparr>auto_screenshot = auto, bindings = Map.empty, device_to_sender = Map.empty,
     task_queues = Map.empty, executed_tasks = Map.empty, device_last_seen = Map.empty\<rparr>"

section \<open>HTTP requests\<close>

text \<open>
  \<open>await request.json()\<close> either raises (the body is \<open>None\<close>) or yields a JSON value.
  \<open>handle_get_task\<close> and \<open>handle_report_status\<close> are the handlers on an unparsable body
  and on an object whose fields are strings, as the protocol sends them; \<open>data.get(k, "")\<close>
  is \<open>get_field\<close>. The JSON values that are no objects follow in section
  \<open>The body as received\<close>.
\<close>

type_synonym json_obj = "string \<rightharpoonup> string"

definition get_field :: "json_obj \<Rightarrow> string \<Rightarrow> string" where
  "get_field data k = (case data k of None \<Rightarrow> [] | Some v \<Rightarrow> v)"

text \<open>The JSON response of \<open>/maa/getTask\<close>: the status and the list under \<open>"tasks"\<close>.\<close>

record task_response =
  status_code :: nat
  tasks :: "task list"

text \<open>\<open>logger.debug\<close> of an unbound device's poll: the device and the user of the request.\<close>

datatype log_entry = Unbound_device_request string string

text \<open>\<open>self.task_queues.get(device_id, [])\<close> and \<open>self.executed_tasks.get(device_id, set())\<close>.\<close>

definition queue_of :: "plugin \<Rightarrow> string \<Rightarrow> task list" where
  "queue_of s device = (case task_queues s device of None \<Rightarrow> [] | Some q \<Rightarrow> q)"

definition executed_of :: "plugin \<Rightarrow> string \<Rightarrow> string set" where
  "executed_of s device = (case executed_tasks s device of None \<Rightarrow> {} | Some e \<Rightarrow> e)"

text \<open>Lines 160-165 of \<open>_handle_get_task\<close>: the queued tasks whose id is not in the executed set.\<close>

definition pending_tasks :: "plugin \<Rightarrow> string \<Rightarrow> task list" where
  "pending_tasks s device =
     (let queued = queue_of s device;
          executed = executed_of s device
      in filter (\<lambda>t. tid t \<notin> executed) queued)"

text \<open>
  \<open>_handle_get_task\<close>. The result is the new state, the response and what was logged.
  \<open>if not sender_id\<close> is true for a missing entry and for an empty sender id alike.
\<close>

definition handle_get_task ::
  "plugin \<Rightarrow> real \<Rightarrow> json_obj option \<Rightarrow> plugin \<times> task_response \<times> log_entry list" where
  "handle_get_task s now req =
     (case req of
        None \<Rightarrow> (s, \<lparr>status_code = 400, tasks = []\<rparr>, [])
      | Some data \<Rightarrow>
          (let device = get_field data ''device'';
               user = get_field data ''user''
           in if device = [] then (s, \<lparr>status_code = 400, tasks = []\<rparr>, [])
              else
                (let s1 = s\<lparr>device_last_seen := (device_last_seen s)(device \<mapsto> now)\<rparr>
                 in case device_to_sender s1 device of
                      None \<Rightarrow>
                        (s1, \<lparr>status_code = 200, tasks = []\<rparr>, [Unbound_device_request device user])
                    | Some sender \<Rightarrow>
                        if sender = []
                        then (s1, \<lparr>status_code = 200, tasks = []\<rparr>,
                              [Unbound_device_request device user])
                        else (s1, \<lparr>status_code = 200, tasks = pending_tasks s1 device\<rparr>, []))))"

section \<open>Reporting a result\<close>

text \<open>
  Lines 184-193 of \<open>_handle_report_status\<close>: the task id joins the device's executed set
  (created when missing) and every task with that id leaves the device's queue, when the
  device has one.
\<close>

definition acknowledge :: "plugin \<Rightarrow> string \<Rightarrow> string \<Rightarrow> plugin" where
  "acknowledge s device task_id =
     (let s1 = s\<lparr>executed_tasks := (executed_tasks s)(device \<mapsto> insert task_id (executed_of s device))\<rparr>
      in case task_queues s1 device of
           None \<Rightarrow> s1
         | Some q \<Rightarrow>
             s1\<lparr>task_queues := (task_queues s1)(device \<mapsto> filter (\<lambda>t. tid t \<noteq> task_id) q)\<rparr>)"

text \<open>
  The two message texts of the handler, each with the values its f-string interpolates:
  the completion message with the reported status, and the fallback that appends the
  failure of the screenshot.
\<close>

datatype notice = Task_done string | Task_done_screenshot_failed string string

text \<open>A component of a \<open>MessageChain\<close>: \<open>.message(t)\<close> or \<open>.file_image(path)\<close>.\<close>

datatype comp = Plain notice | Image_file string

text \<open>
  What the handler meets outside the plugin. An exception is the string that describes
  it. \<open>b64decode\<close> is \<open>base64.b64decode\<close> (\<open>Inl\<close> when it raises), \<open>uuid_hex\<close> the
  \<open>uuid.uuid4().hex\<close> drawn for the file name, \<open>write_file\<close> the creation of the temp
  directory and the write of the file (\<open>Some e\<close> when one of them raises) and
  \<open>send_message\<close> is \<open>self.context.send_message\<close> (\<open>Some e\<close> when it raises).
\<close>

record relay_env =
  b64decode :: "string \<Rightarrow> string + string"
  uuid_hex :: string
  write_file :: "string \<Rightarrow> string \<Rightarrow> string option"
  send_message :: "string \<Rightarrow> comp list \<Rightarrow> string option"

text \<open>
  Effects that a handler awaits, in program order: a file written, a chain delivered to a
  channel, an error logged. A coroutine handed to \<open>asyncio.create_task\<close> is not awaited:
  it is a job that runs later, here the deletion of a path after a delay.
\<close>

datatype event = File_written string string | Message_sent string "comp list" | Error_logged string

datatype job = Delete_temp_file string real

record relay_run =
  effects :: "event list"
  spawned :: "job list"
  raised :: "string option"

definition temp_path :: "string \<Rightarrow> string" where
  "temp_path hex = ''data/astrbot_plugin_maa/temp/screenshot_'' @ take 8 hex @ ''.png''"

text \<open>
  \<open>_send_screenshot\<close>: decode, write the temp file, send text and image, then hand the
  deletion (default delay 30.0) to \<open>asyncio.create_task\<close>. An exception leaves at the
  statement that raises it, so nothing after that statement happens.
\<close>

definition send_screenshot :: "relay_env \<Rightarrow> string \<Rightarrow> string \<Rightarrow> notice \<Rightarrow> relay_run" where
  "send_screenshot env dest base64_data message =
     (case b64decode env base64_data of
        Inl e \<Rightarrow> \<lparr>effects = [], spawned = [], raised = Some e\<rparr>
      | Inr image_data \<Rightarrow>
          (let temp_file = temp_path (uuid_hex env)
           in case write_file env temp_file image_data of
                Some e \<Rightarrow> \<lparr>effects = [], spawned = [], raised = Some e\<rparr>
              | None \<Rightarrow>
                  (let chain = [Plain message, Image_file temp_file]
                   in case send_message env dest chain of
                        Some e \<Rightarrow>
                          \<lparr>effects = [File_written temp_file image_data], spawned = [],
                           raised = Some e\<rparr>
                      | None \<Rightarrow>
                          \<lparr>effects = [File_written temp_file image_data, Message_sent dest chain],
                           spawned = [Delete_temp_file temp_file 30], raised = None\<rparr>)))"

text \<open>
  \<open>_delete_temp_file\<close> once its sleep is over, on the set of existing paths: the file is
  unlinked when it exists; an exception of \<open>unlink\<close> is caught and logged. The result is
  the new set of paths and the debug log.
\<close>

definition delete_temp_file :: "string option \<Rightarrow> string set \<Rightarrow> string \<Rightarrow> string set \<times> string list" where
  "delete_temp_file unlink_error files path =
     (if path \<in> files
      then (case unlink_error of None \<Rightarrow> (files - {path}, []) | Some e \<Rightarrow> (files, [e]))
      else (files, []))"

text \<open>
  Lines 196-199: the channel to notify, when the device has a sender, the sender a binding
  and the binding a non-empty \<open>umo\<close>.
\<close>

definition notify_target :: "plugin \<Rightarrow> string \<Rightarrow> string option" where
  "notify_target s device =
     (case device_to_sender s device of
        None \<Rightarrow> None
      | Some sender \<Rightarrow>
          if sender = [] then None
          else (case bindings s sender of
                  None \<Rightarrow> None
                | Some b \<Rightarrow> if umo b = [] then None else Some (umo b)))"

text \<open>
  The result of \<open>_handle_report_status\<close>: the new state, the awaited effects, the jobs
  spawned, and either the status of the \<open>web.Response\<close> returned (\<open>Inr\<close>) or the exception
  that left the handler (\<open>Inl\<close>).
\<close>

record report_result =
  new_state :: plugin
  awaited :: "event list"
  jobs :: "job list"
  response :: "string + nat"

definition handle_report_status :: "relay_env \<Rightarrow> plugin \<Rightarrow> json_obj option \<Rightarrow> report_result" where
  "handle_report_status env s req =
     (case req of
        None \<Rightarrow> \<lparr>new_state = s, awaited = [], jobs = [], response = Inr 400\<rparr>
      | Some data \<Rightarrow>
          (let device = get_field data ''device'';
               task_id = get_field data ''task'';
               status = get_field data ''status'';
               payload = get_field data ''payload''
           in if device = [] \<or> task_id = []
              then \<lparr>new_state = s, awaited = [], jobs = [], response = Inr 400\<rparr>
              else
                (let s1 = acknowledge s device task_id
                 in case notify_target s1 device of
                      None \<Rightarrow> \<lparr>new_state = s1, awaited = [], jobs = [], response = Inr 200\<rparr>
                    | Some dest \<Rightarrow>
                        (let message = Task_done status
                         in if payload \<noteq> [] \<and> length payload > 100
                            then
                              (let r = send_screenshot env dest payload message
                               in case raised r of
                                    None \<Rightarrow>
                                      \<lparr>new_state = s1, awaited = effects r, jobs = spawned r,
                                       response = Inr 200\<rparr>
                                  | Some e \<Rightarrow>
                                      (let chain = [Plain (Task_done_screenshot_failed status e)]
                                       in case send_message env dest chain of
                                            None \<Rightarrow>
                                              \<lparr>new_state = s1,
                                               awaited = effects r @ [Error_logged e, Message_sent dest chain],
                                               jobs = spawned r, response = Inr 200\<rparr>
                                          | Some e' \<Rightarrow>
                                              \<lparr>new_state = s1, awaited = effects r @ [Error_logged e],
                                               jobs = spawned r, response = Inl e'\<rparr>))
                            else
                              (let chain = [Plain message]
                               in case send_message env dest chain of
                                    None \<Rightarrow>
                                      \<lparr>new_state = s1, awaited = [Message_sent dest chain], jobs = [],
                                       response = Inr 200\<rparr>
                                  | Some e \<Rightarrow>
                                      \<lparr>new_state = s1, awaited = [], jobs = [], response = Inl e\<rparr>)))))"

section \<open>The body as received\<close>

text \<open>
  \<open>await request.json()\<close> returns whatever JSON value the body holds, not only an object.
  Both handlers call \<open>data.get\<close> after the \<open>try\<close> that guards the parsing (lines
  143 and 176), and only a dict has that attribute: on \<open>null\<close>, a boolean, a number, a
  string or an array the call raises \<open>AttributeError\<close>, which nothing in the handler
  catches, before any attribute of the plugin is written. On an object the handlers go on
  as \<open>handle_get_task\<close> and \<open>handle_report_status\<close> describe (for an object whose fields
  are strings). \<open>Inl\<close> is the exception that leaves the handler.
\<close>

datatype json = JNull | JBool bool | JNum real | JStr string | JArr "json list" | JObj json_obj

fun is_object :: "json \<Rightarrow> bool" where
  "is_object (JObj members) = True"
| "is_object other = False"

definition serve_get_task ::
  "plugin \<Rightarrow> real \<Rightarrow> json option \<Rightarrow> plugin \<times> (string + task_response) \<times> log_entry list" where
  "serve_get_task s now body =
     (case body of
        None \<Rightarrow> (s, Inr \<lparr>status_code = 400, tasks = []\<rparr>, [])
      | Some (JObj data) \<Rightarrow>
          (case handle_get_task s now (Some data) of (s', answer, logged) \<Rightarrow> (s', Inr answer, logged))
      | Some other \<Rightarrow> (s, Inl ''AttributeError'', []))"

definition serve_report_status :: "relay_env \<Rightarrow> plugin \<Rightarrow> json option \<Rightarrow> report_result" where
  "serve_report_status env s body =
     (case body of
        None \<Rightarrow> \<lparr>new_state = s, awaited = [], jobs = [], response = Inr 400\<rparr>
      | Some (JObj data) \<Rightarrow> handle_report_status env s (Some data)
      | Some other \<Rightarrow>
          \<lparr>new_state = s, awaited = [], jobs = [], response = Inl ''AttributeError''\<rparr>)"

section \<open>Enqueueing tasks\<close>

text \<open>
  \<open>_add_task\<close>. \<open>uuid.uuid4()\<close> is drawn from the environment: \<open>u1\<close> is the first draw,
  \<open>u2\<close> the second, which the code makes only when it appends the screenshot task. The
  result is the new state and the id returned.
\<close>

definition exempt_types :: "string set" where
  "exempt_types = {''CaptureImage'', ''CaptureImageNow'', ''HeartBeat''}"

definition add_task :: "plugin \<Rightarrow> string \<Rightarrow> string \<Rightarrow> string \<Rightarrow> string \<Rightarrow> string \<Rightarrow> plugin \<times> string" where
  "add_task s device task_type params u1 u2 =
     (let new_task = \<lparr>tid = u1, ttype = task_type,
                      tparams = (if params \<noteq> [] then Some params else None)\<rparr>;
          q1 = queue_of s device @ [new_task];
          q2 = (if auto_screenshot s \<and> task_type \<notin> exempt_types
                then q1 @ [\<lparr>tid = u2, ttype = ''CaptureImage'', tparams = None\<rparr>]
                else q1)
      in (s\<lparr>task_queues := (task_queues s)(device \<mapsto> q2)\<rparr>, u1))"

section \<open>Operator commands\<close>

text \<open>
  What a command yields to the operator, with the values its message interpolates:
  the warning of \<open>maa_bind\<close> for a sender that has a binding (with \<open>old_device[:8]\<close>), its
  refusal of a device that is in the inverse index, its success (with \<open>device_id[:16]\<close>
  and the sender), the refusal of \<open>maa_unbind\<close> for a sender without binding, its success
  (with \<open>old_device[:16]\<close>), the refusal of the task commands for a sender without binding
  and the confirmations of \<open>maa_screenshot\<close>, \<open>maa_stop\<close> and \<open>maa_heartbeat\<close>.
\<close>

datatype reply =
    Already_bound string
  | Device_taken
  | Bind_ok string string
  | Not_bound
  | Unbind_ok string
  | Bind_first
  | Screenshot_queued
  | Stop_sent
  | Heartbeat_sent

text \<open>
  \<open>maa_bind\<close>, with the sender id and the \<open>unified_msg_origin\<close> of the event. \<open>_save_data\<close>
  writes the bindings to a file and changes no attribute, so it has no part in the state.
\<close>

definition maa_bind :: "plugin \<Rightarrow> string \<Rightarrow> string \<Rightarrow> string \<Rightarrow> plugin \<times> reply" where
  "maa_bind s sender device origin =
     (case bindings s sender of
        Some b \<Rightarrow> (s, Already_bound (take 8 (device_id b)))
      | None \<Rightarrow>
          (case device_to_sender s device of
             Some other \<Rightarrow> (s, Device_taken)
           | None \<Rightarrow>
               (s\<lparr>bindings := (bindings s)(sender \<mapsto>
                      \<lparr>device_id = device, user_id = sender, umo = origin\<rparr>),
                   device_to_sender := (device_to_sender s)(device \<mapsto> sender)\<rparr>,
                Bind_ok (take 16 device) sender)))"

text \<open>
  \<open>maa_unbind\<close>. \<open>del self.device_to_sender[old_device]\<close> raises \<open>KeyError\<close> when the key
  is missing; it is the first deletion, so the state is then as it was.
\<close>

datatype py_error = KeyError string

definition maa_unbind :: "plugin \<Rightarrow> string \<Rightarrow> plugin \<times> (py_error + reply)" where
  "maa_unbind s sender =
     (case bindings s sender of
        None \<Rightarrow> (s, Inr Not_bound)
      | Some b \<Rightarrow>
          (let old_device = device_id b
           in case device_to_sender s old_device of
                None \<Rightarrow> (s, Inl (KeyError old_device))
              | Some owner \<Rightarrow>
                  (s\<lparr>device_to_sender := (device_to_sender s)(old_device := None),
                      bindings := (bindings s)(sender := None),
                      task_queues := (task_queues s)(old_device := None),
                      executed_tasks := (executed_tasks s)(old_device := None)\<rparr>,
                   Inr (Unbind_ok (take 16 old_device)))))"

text \<open>
  \<open>maa_screenshot\<close>, \<open>maa_stop\<close> and \<open>maa_heartbeat\<close> build the task themselves and insert
  it at index 0 of the device's queue; none of them calls \<open>_add_task\<close>. \<open>u\<close> is the
  \<open>uuid.uuid4()\<close> drawn.
\<close>

definition maa_screenshot :: "plugin \<Rightarrow> string \<Rightarrow> string \<Rightarrow> plugin \<times> reply" where
  "maa_screenshot s sender u =
     (case bindings s sender of
        None \<Rightarrow> (s, Bind_first)
      | Some b \<Rightarrow>
          (let device = device_id b;
               new_task = \<lparr>tid = u, ttype = ''CaptureImageNow'', tparams = None\<rparr>
           in (s\<lparr>task_queues := (task_queues s)(device \<mapsto> new_task # queue_of s device)\<rparr>,
               Screenshot_queued)))"

definition maa_stop :: "plugin \<Rightarrow> string \<Rightarrow> string \<Rightarrow> plugin \<times> reply" where
  "maa_stop s sender u =
     (case bindings s sender of
        None \<Rightarrow> (s, Bind_first)
      | Some b \<Rightarrow>
          (let device = device_id b;
               new_task = \<lparr>tid = u, ttype = ''StopTask'', tparams = None\<rparr>
           in (s\<lparr>task_queues := (task_queues s)(device \<mapsto> new_task # queue_of s device)\<rparr>,
               Stop_sent)))"

definition maa_heartbeat :: "plugin \<Rightarrow> string \<Rightarrow> string \<Rightarrow> plugin \<times> reply" where
  "maa_heartbeat s sender u =
     (case bindings s sender of
        None \<Rightarrow> (s, Bind_first)
      | Some b \<Rightarrow>
          (let device = device_id b;
               new_task = \<lparr>tid = u, ttype = ''HeartBeat'', tparams = None\<rparr>
           in (s\<lparr>task_queues := (task_queues s)(device \<mapsto> new_task # queue_of s device)\<rparr>,
               Heartbeat_sent)))"

section \<open>Runs of the plugin\<close>

text \<open>
  One operation on the plugin's state, with everything it takes from outside: a command
  of an operator, a call of \<open>_add_task\<close> (what \<open>maa_start\<close> does for each task it
  resolved, on the device of its sender), or a request of a device. A run applies a list
  of operations from left to right.
\<close>

datatype op =
    Op_bind string string string
  | Op_unbind string
  | Op_add_task string string string string string
  | Op_screenshot string string
  | Op_stop string string
  | Op_heartbeat string string
  | Op_get_task "json_obj option" real
  | Op_report_status relay_env "json_obj option"

fun step :: "plugin \<Rightarrow> op \<Rightarrow> plugin" where
  "step s (Op_bind sender device origin) = fst (maa_bind s sender device origin)"
| "step s (Op_unbind sender) = fst (maa_unbind s sender)"
| "step s (Op_add_task device task_type params u1 u2) = fst (add_task s device task_type params u1 u2)"
| "step s (Op_screenshot sender u) = fst (maa_screenshot s sender u)"
| "step s (Op_stop sender u) = fst (maa_stop s sender u)"
| "step s (Op_heartbeat sender u) = fst (maa_heartbeat s sender u)"
| "step s (Op_get_task req now) = fst (handle_get_task s now req)"
| "step s (Op_report_status env req) = new_state (handle_report_status env s req)"

definition run :: "plugin \<Rightarrow> op list \<Rightarrow> plugin" where
  "run s ops = foldl step s ops"

text \<open>
  The two indices agree: every binding is found again under its device, and every entry
  of the inverse index names a sender whose binding holds that device.
\<close>

definition consistent :: "plugin \<Rightarrow> bool" where
  "consistent s \<longleftrightarrow>
     (\<forall>sender b. bindings s sender = Some b \<longrightarrow> device_to_sender s (device_id b) = Some sender)
     \<and> (\<forall>device sender. device_to_sender s device = Some sender \<longrightarrow>
            (\<exists>b. bindings s sender = Some b \<and> device_id b = device))"

text \<open>
  The test of \<open>_handle_get_task\<close> for a bound device: the inverse index has a non-empty
  sender for it.
\<close>

definition bound_device :: "plugin \<Rightarrow> string \<Rightarrow> bool" where
  "bound_device s device =
     (case device_to_sender s device of None \<Rightarrow> False | Some sender \<Rightarrow> sender \<noteq> [])"

text \<open>
  An operation acknowledges task \<open>i\<close> of device \<open>d\<close> when it is a report with these two
  fields; it unbinds \<open>d\<close> when it is the unbind of a sender whose binding holds \<open>d\<close>. A
  list of operations leaves \<open>i\<close> on \<open>d\<close> undisturbed when none of them, in the state it
  meets, does either.
\<close>

fun acks :: "string \<Rightarrow> string \<Rightarrow> op \<Rightarrow> bool" where
  "acks d i (Op_report_status env (Some data)) =
     (get_field data ''device'' = d \<and> get_field data ''task'' = i)"
| "acks d i x = False"

fun unbinds :: "plugin \<Rightarrow> string \<Rightarrow> op \<Rightarrow> bool" where
  "unbinds s d (Op_unbind sender) =
     (case bindings s sender of None \<Rightarrow> False | Some b \<Rightarrow> device_id b = d)"
| "unbinds s d x = False"

fun undisturbed :: "string \<Rightarrow> string \<Rightarrow> plugin \<Rightarrow> op list \<Rightarrow> bool" where
  "undisturbed d i s [] = True"
| "undisturbed d i s (x # xs) =
     (\<not> acks d i x \<and> \<not> unbinds s d x \<and> undisturbed d i (step s x) xs)"

text \<open>The ids an operation takes from \<open>uuid.uuid4()\<close>.\<close>

fun draws :: "op \<Rightarrow> string set" where
  "draws (Op_add_task device task_type params u1 u2) = {u1, u2}"
| "draws (Op_screenshot sender u) = {u}"
| "draws (Op_stop sender u) = {u}"
| "draws (Op_heartbeat sender u) = {u}"
| "draws x = {}"

text \<open>
  Task id \<open>i\<close> is retired on device \<open>d\<close> when it is in the executed set of \<open>d\<close> or no
  task of the queue of \<open>d\<close> bears it.
\<close>

definition retired :: "plugin \<Rightarrow> string \<Rightarrow> string \<Rightarrow> bool" where
  "retired s d i \<longleftrightarrow> i \<in> executed_of s d \<or> i \<notin> tid ` set (queue_of s d)"

section \<open>Fixed inputs for the examples\<close>

text \<open>
  \<open>base64.b64decode\<close> of a \<open>str\<close> without validation: a character outside ASCII raises
  \<open>ValueError\<close>; otherwise \<open>binascii.a2b_base64\<close> reads the characters from left to right,
  skips those outside the alphabet, turns every four data characters into three bytes,
  stops at padding that completes a group, and raises when data characters are left in
  an incomplete group at the end. \<open>quad_pos\<close> counts the data characters of the current
  group, \<open>leftchar\<close> holds the bits not yet written, \<open>pads\<close> the padding characters seen.
\<close>

definition b64_value :: "char \<Rightarrow> nat option" where
  "b64_value c =
     (let n = (of_char c :: nat)
      in if 65 \<le> n \<and> n \<le> 90 then Some (n - 65)
         else if 97 \<le> n \<and> n \<le> 122 then Some (n - 71)
         else if 48 \<le> n \<and> n \<le> 57 then Some (n + 4)
         else if n = 43 then Some 62
         else if n = 47 then Some 63
         else None)"

fun a2b_base64 :: "nat \<Rightarrow> nat \<Rightarrow> nat \<Rightarrow> string \<Rightarrow> string \<Rightarrow> string + string" where
  "a2b_base64 quad_pos leftchar pads [] out =
     (if quad_pos = 0 then Inr (rev out) else Inl ''binascii.Error'')"
| "a2b_base64 quad_pos leftchar pads (c # cs) out =
     (if c = CHR ''=''
      then (if quad_pos \<ge> 2 \<and> quad_pos + (pads + 1) \<ge> 4 then Inr (rev out)
            else a2b_base64 quad_pos leftchar (if quad_pos \<ge> 2 then pads + 1 else pads) cs out)
      else (case b64_value c of
              None \<Rightarrow> a2b_base64 quad_pos leftchar pads cs out
            | Some v \<Rightarrow>
                if quad_pos = 0 then a2b_base64 1 v 0 cs out
                else if quad_pos = 1
                then a2b_base64 2 (v mod 16) 0 cs (char_of (leftchar * 4 + v div 16) # out)
                else if quad_pos = 2
                then a2b_base64 3 (v mod 4) 0 cs (char_of (leftchar * 16 + v div 4) # out)
                else a2b_base64 0 0 0 cs (char_of (leftchar * 64 + v) # out)))"

definition b64decode_std :: "string \<Rightarrow> string + string" where
  "b64decode_std s =
     (if \<exists>c\<in>set s. (of_char c :: nat) \<ge> 128 then Inl ''ValueError''
      else a2b_base64 0 0 0 s [])"

text \<open>
  An environment with that decoder in which writing and sending succeed, one whose
  channel refuses every chain, and one whose channel refuses chains that carry an image.
\<close>

definition env_ok :: relay_env where
  "env_ok = \<lparr>b64decode = b64decode_std, uuid_hex = ''0123456789abcdef0123456789abcdef'',
     write_file = (\<lambda>path bytes. None), send_message = (\<lambda>dest chain. None)\<rparr>"

definition env_channel_down :: relay_env where
  "env_channel_down = env_ok\<lparr>send_message := (\<lambda>dest chain. Some ''channel closed'')\<rparr>"

definition env_image_refused :: relay_env where
  "env_image_refused = env_ok\<lparr>send_message :=
     (\<lambda>dest chain. if length chain = 1 then None else Some ''image refused'')\<rparr>"

text \<open>Operator \<open>U1\<close> bound to device \<open>D1\<close> on channel \<open>chan1\<close>, auto-screenshot on.\<close>

definition bound_state :: plugin where
  "bound_state = fst (maa_bind (init True) ''U1'' ''D1'' ''chan1'')"

text \<open>
  A poll of device \<open>D1\<close>, and a report of device \<open>D1\<close> for task \<open>i\<close> with the given status
  and payload.
\<close>

definition poll_D1 :: json_obj where
  "poll_D1 = [''device'' \<mapsto> ''D1'', ''user'' \<mapsto> ''U1'']"

definition report_for :: "string \<Rightarrow> string \<Rightarrow> string \<Rightarrow> json_obj" where
  "report_for i st payload =
     [''device'' \<mapsto> ''D1'', ''task'' \<mapsto> i, ''status'' \<mapsto> st, ''payload'' \<mapsto> payload]"

text \<open>
  The state after \<open>_add_task\<close> of a combat task for \<open>D1\<close> (ids \<open>t1\<close> and, for the
  screenshot, \<open>t2\<close>); operations that leave \<open>t1\<close> alone; and operations, an unbind and a
  new bind among them, that draw other ids.
\<close>

definition combat_task :: task where
  "combat_task = \<lparr>tid = ''t1'', ttype = ''LinkStart-Combat'', tparams = None\<rparr>"

definition queued_state :: plugin where
  "queued_state = fst (add_task bound_state ''D1'' ''LinkStart-Combat'' [] ''t1'' ''t2'')"

definition busy_ops :: "op list" where
  "busy_ops = [Op_get_task (Some poll_D1) 1, Op_report_status env_ok (Some (report_for ''t2'' ''done'' [])),
     Op_stop ''U1'' ''t3'']"

definition later_ops :: "op list" where
  "later_ops = [Op_add_task ''D1'' ''LinkStart-Mall'' [] ''t4'' ''t5'', Op_unbind ''U1'',
     Op_bind ''U1'' ''D1'' ''chan1'', Op_heartbeat ''U1'' ''t6'']"

text \<open>
  Five commands: \<open>U1\<close> binds \<open>D1\<close>, \<open>U2\<close> is refused \<open>D1\<close> and binds \<open>D2\<close>, \<open>U1\<close> unbinds,
  \<open>U3\<close> binds \<open>D1\<close>.
\<close>

definition two_binds :: "op list" where
  "two_binds = [Op_bind ''U1'' ''D1'' ''chan1'', Op_bind ''U2'' ''D1'' ''chan2'',
     Op_bind ''U2'' ''D2'' ''chan2'', Op_unbind ''U1'', Op_bind ''U3'' ''D1'' ''chan3'']"

text \<open>
  A payload of 101 characters, the base64 form of 75 bytes \<open>x\<close> followed by one padding
  character, the bytes it encodes, and a payload of 100 characters.
\<close>

definition long_payload :: string where
  "long_payload = concat (replicate 25 ''eHh4'') @ ''=''"

definition long_image :: string where
  "long_image = replicate 75 (CHR ''x'')"

definition short_payload :: string where
  "short_payload = concat (replicate 25 ''eHh4'')"

section \<open>Theorems\<close>

subsection \<open>Protocol errors\<close>

text \<open>
  An unparsable body, and an object whose \<open>device\<close> is empty (for \<open>getTask\<close>) or whose
  \<open>device\<close> or \<open>task\<close> is empty (for \<open>reportStatus\<close>), are answered with status 400; the
  state returned is the state given, and nothing is sent, logged or spawned.
\<close>

lemma object_body_400_no_mutation:
  "handle_get_task s now None = (s, \<lparr>status_code = 400, tasks = []\<rparr>, [])
   \<and> (get_field data ''device'' = [] \<longrightarrow>
        handle_get_task s now (Some data) = (s, \<lparr>status_code = 400, tasks = []\<rparr>, []))
   \<and> handle_report_status env s None
        = \<lparr>new_state = s, awaited = [], jobs = [], response = Inr 400\<rparr>
   \<and> (get_field data ''device'' = [] \<or> get_field data ''task'' = [] \<longrightarrow>
        handle_report_status env s (Some data)
          = \<lparr>new_state = s, awaited = [], jobs = [], response = Inr 400\<rparr>)"
  by (simp add: handle_get_task_def handle_report_status_def)

lemma object_body_400_no_mutation_example:
  "get_field [''device'' \<mapsto> ''D1''] ''task'' = []
   \<and> handle_report_status env_ok bound_state (Some [''device'' \<mapsto> ''D1''])
        = \<lparr>new_state = bound_state, awaited = [], jobs = [], response = Inr 400\<rparr>
   \<and> get_field [''user'' \<mapsto> ''U1''] ''device'' = []
   \<and> handle_get_task bound_state 5 (Some [''user'' \<mapsto> ''U1''])
        = (bound_state, \<lparr>status_code = 400, tasks = []\<rparr>, [])"
  using object_body_400_no_mutation [of bound_state 5 "[''device'' \<mapsto> ''D1'']" env_ok]
    object_body_400_no_mutation [of bound_state 5 "[''user'' \<mapsto> ''U1'']" env_ok]
  by (simp add: get_field_def)

lemma serve_object:
  "serve_get_task s now None = (s, Inr \<lparr>status_code = 400, tasks = []\<rparr>, [])"
  "get_field data ''device'' = [] \<Longrightarrow>
     serve_get_task s now (Some (JObj data)) = (s, Inr \<lparr>status_code = 400, tasks = []\<rparr>, [])"
  "serve_report_status env s None = \<lparr>new_state = s, awaited = [], jobs = [], response = Inr 400\<rparr>"
  "get_field data ''device'' = [] \<or> get_field data ''task'' = [] \<Longrightarrow>
     serve_report_status env s (Some (JObj data))
       = \<lparr>new_state = s, awaited = [], jobs = [], response = Inr 400\<rparr>"
  "serve_report_status env s (Some (JObj data)) = handle_report_status env s (Some data)"
  by (simp_all add: serve_get_task_def serve_report_status_def handle_get_task_def
        handle_report_status_def)

text \<open>
  C6. Protocol errors. A body that is JSON but not an object (\<open>[]\<close>, \<open>null\<close>, \<open>3\<close>, a string)
  is not answered with status 400: \<open>data.get\<close> raises \<open>AttributeError\<close> and the exception
  leaves the handler, in \<open>getTask\<close> and in \<open>reportStatus\<close> alike. The state is the state
  given, and nothing is sent, logged or spawned.
\<close>

theorem non_object_body_raises:
  assumes "\<not> is_object body"
  shows "serve_get_task s now (Some body) = (s, Inl ''AttributeError'', [])
         \<and> serve_report_status env s (Some body)
             = \<lparr>new_state = s, awaited = [], jobs = [], response = Inl ''AttributeError''\<rparr>"
  using assms by (cases body) (simp_all add: serve_get_task_def serve_report_status_def)

theorem non_object_body_raises_witness:
  "\<not> is_object (JArr [])
   \<and> serve_get_task bound_state 5 (Some (JArr [])) = (bound_state, Inl ''AttributeError'', [])
   \<and> serve_report_status env_ok bound_state (Some (JArr []))
       = \<lparr>new_state = bound_state, awaited = [], jobs = [], response = Inl ''AttributeError''\<rparr>"
  using non_object_body_raises [of "JArr []" bound_state 5 env_ok] by simp

subsection \<open>Binding\<close>

text \<open>
  C4. Rebind rejection. \<open>maa_bind\<close> refuses a sender that has a binding (the reply names
  the first characters of the device it holds) and, for a sender without binding, a device
  that the inverse index already gives to some sender; in both cases the state returned
  is the state given.
\<close>

theorem rebind_rejected_without_mutation:
  "(bindings s sender = Some b \<longrightarrow>
      maa_bind s sender device origin = (s, Already_bound (take 8 (device_id b))))
   \<and> (bindings s sender = None \<and> device_to_sender s device = Some other \<longrightarrow>
      maa_bind s sender device origin = (s, Device_taken))"
  by (simp add: maa_bind_def)

theorem rebind_rejected_without_mutation_witness:
  "bindings bound_state ''U1'' = Some \<lparr>device_id = ''D1'', user_id = ''U1'', umo = ''chan1''\<rparr>
   \<and> maa_bind bound_state ''U1'' ''D2'' ''chan1'' = (bound_state, Already_bound ''D1'')
   \<and> bindings bound_state ''U2'' = None
   \<and> device_to_sender bound_state ''D1'' = Some ''U1''
   \<and> maa_bind bound_state ''U2'' ''D1'' ''chan2'' = (bound_state, Device_taken)"
  using rebind_rejected_without_mutation
      [of bound_state "''U1''" "\<lparr>device_id = ''D1'', user_id = ''U1'', umo = ''chan1''\<rparr>"
          "''D2''" "''chan1''" "''U1''"]
    rebind_rejected_without_mutation
      [of bound_state "''U2''" "\<lparr>device_id = ''D1'', user_id = ''U1'', umo = ''chan1''\<rparr>"
          "''D1''" "''chan2''" "''U1''"]
  by (simp add: bound_state_def maa_bind_def init_def)

subsection \<open>Acknowledgement\<close>

lemma executed_of_acknowledge:
  "executed_of (acknowledge s d i) d' =
     (if d' = d then insert i (executed_of s d) else executed_of s d')"
  by (simp add: acknowledge_def executed_of_def Let_def split: option.splits)

lemma queue_of_acknowledge:
  "queue_of (acknowledge s d i) d' =
     (if d' = d then filter (\<lambda>t. tid t \<noteq> i) (queue_of s d) else queue_of s d')"
  by (simp add: acknowledge_def queue_of_def Let_def split: option.splits)

lemma acknowledge_twice: "acknowledge (acknowledge s d i) d i = acknowledge s d i"
  by (simp add: acknowledge_def executed_of_def Let_def split: option.splits)

lemma report_state:
  "new_state (handle_report_status env s (Some data)) =
     (if get_field data ''device'' = [] \<or> get_field data ''task'' = [] then s
      else acknowledge s (get_field data ''device'') (get_field data ''task''))"
  by (simp add: handle_report_status_def Let_def split: option.splits)

lemma report_state_opt:
  "new_state (handle_report_status env s req) =
     (case req of
        None \<Rightarrow> s
      | Some data \<Rightarrow>
          if get_field data ''device'' = [] \<or> get_field data ''task'' = [] then s
          else acknowledge s (get_field data ''device'') (get_field data ''task''))"
proof (cases req)
  case None
  then show ?thesis by (simp add: handle_report_status_def)
next
  case (Some data)
  then show ?thesis by (simp add: report_state)
qed

text \<open>
  C5. Acknowledge is idempotent. A second acknowledgement with the same device and task
  id leaves the state of the first; each one puts the id into the device's executed set
  and filters every task with that id out of the device's queue, wherever it stands. The
  same holds for the state that two equal reports leave, whatever the channel does.
\<close>

theorem acknowledge_idempotent:
  "acknowledge (acknowledge s d i) d i = acknowledge s d i
   \<and> executed_of (acknowledge s d i) d = insert i (executed_of s d)
   \<and> queue_of (acknowledge s d i) d = filter (\<lambda>t. tid t \<noteq> i) (queue_of s d)
   \<and> new_state (handle_report_status env' (new_state (handle_report_status env s req)) req)
       = new_state (handle_report_status env s req)"
proof -
  have "new_state (handle_report_status env' (new_state (handle_report_status env s req)) req)
          = new_state (handle_report_status env s req)"
  proof (cases req)
    case None
    then show ?thesis by (simp add: handle_report_status_def)
  next
    case (Some data)
    then show ?thesis by (simp add: report_state acknowledge_twice)
  qed
  then show ?thesis
    by (simp add: acknowledge_twice executed_of_acknowledge queue_of_acknowledge)
qed

subsection \<open>The user field of a poll\<close>

text \<open>
  C10. The \<open>user\<close> field of a \<open>getTask\<close> request has no influence on the state the
  handler leaves nor on its response (status and task list): replacing or removing the
  field changes neither. Only the debug log of an unbound device mentions it.
\<close>

theorem get_task_ignores_user:
  "fst (handle_get_task s now (Some (data(''user'' := u)))) = fst (handle_get_task s now (Some data))
   \<and> fst (snd (handle_get_task s now (Some (data(''user'' := u)))))
       = fst (snd (handle_get_task s now (Some data)))"
  by (simp add: handle_get_task_def get_field_def Let_def split: option.splits)

subsection \<open>The two indices\<close>

lemma consistent_init: "consistent (init auto)"
  by (simp add: consistent_def init_def)

lemma indices_acknowledge:
  "bindings (acknowledge s d i) = bindings s"
  "device_to_sender (acknowledge s d i) = device_to_sender s"
  by (simp_all add: acknowledge_def Let_def split: option.splits)

lemma consistent_bind:
  assumes "consistent s"
  shows "consistent (fst (maa_bind s sender device origin))"
proof (cases "bindings s sender")
  case (Some b)
  then show ?thesis using assms by (simp add: maa_bind_def)
next
  case None
  note nb = None
  show ?thesis
  proof (cases "device_to_sender s device")
    case (Some other)
    then show ?thesis using assms nb by (simp add: maa_bind_def)
  next
    case None
    have a: "\<And>snd b. bindings s snd = Some b \<Longrightarrow> device_to_sender s (device_id b) = Some snd"
      and b: "\<And>d snd. device_to_sender s d = Some snd \<Longrightarrow> \<exists>b. bindings s snd = Some b \<and> device_id b = d"
      using assms unfolding consistent_def by blast+
    have c: "\<And>snd b. bindings s snd = Some b \<Longrightarrow> device_id b \<noteq> device"
      using a None by fastforce
    have d: "\<And>d. device_to_sender s d \<noteq> Some sender"
      using b nb by fastforce
    show ?thesis
      unfolding consistent_def using None nb a b c d
      by (simp add: maa_bind_def)
  qed
qed


lemma consistent_unbind:
  assumes "consistent s"
  shows "consistent (fst (maa_unbind s sender))"
proof (cases "bindings s sender")
  case None
  then show ?thesis using assms by (simp add: maa_unbind_def)
next
  case (Some b0)
  have a: "\<And>snd b. bindings s snd = Some b \<Longrightarrow> device_to_sender s (device_id b) = Some snd"
    and b: "\<And>d snd. device_to_sender s d = Some snd \<Longrightarrow> \<exists>b. bindings s snd = Some b \<and> device_id b = d"
    using assms unfolding consistent_def by blast+
  have own: "device_to_sender s (device_id b0) = Some sender"
    using a Some by simp
  have c: "\<And>snd b. bindings s snd = Some b \<Longrightarrow> snd \<noteq> sender \<Longrightarrow> device_id b \<noteq> device_id b0"
    using a own by fastforce
  have d: "\<And>d. d \<noteq> device_id b0 \<Longrightarrow> device_to_sender s d \<noteq> Some sender"
    using b Some by fastforce
  show ?thesis
    unfolding consistent_def using Some own a b c d
    by (simp add: maa_unbind_def Let_def)
qed

lemma step_indices:
  "bindings (step s (Op_add_task device ty params u1 u2)) = bindings s"
  "device_to_sender (step s (Op_add_task device ty params u1 u2)) = device_to_sender s"
  "bindings (step s (Op_screenshot sender u)) = bindings s"
  "device_to_sender (step s (Op_screenshot sender u)) = device_to_sender s"
  "bindings (step s (Op_stop sender u)) = bindings s"
  "device_to_sender (step s (Op_stop sender u)) = device_to_sender s"
  "bindings (step s (Op_heartbeat sender u)) = bindings s"
  "device_to_sender (step s (Op_heartbeat sender u)) = device_to_sender s"
  "bindings (step s (Op_get_task req now)) = bindings s"
  "device_to_sender (step s (Op_get_task req now)) = device_to_sender s"
  "bindings (step s (Op_report_status env req)) = bindings s"
  "device_to_sender (step s (Op_report_status env req)) = device_to_sender s"
  by (simp_all add: add_task_def maa_screenshot_def maa_stop_def maa_heartbeat_def
        handle_get_task_def report_state_opt indices_acknowledge Let_def split: option.splits)

lemma consistent_cong:
  "bindings s' = bindings s \<Longrightarrow> device_to_sender s' = device_to_sender s \<Longrightarrow>
   consistent s \<Longrightarrow> consistent s'"
  by (simp add: consistent_def)

lemma consistent_step:
  assumes "consistent s"
  shows "consistent (step s x)"
proof (cases x)
  case (Op_bind sender device origin)
  then show ?thesis using assms by (simp add: consistent_bind)
next
  case (Op_unbind sender)
  then show ?thesis using assms by (simp add: consistent_unbind)
next
  case (Op_add_task device ty params u1 u2)
  then show ?thesis using assms step_indices(1,2) consistent_cong by blast
next
  case (Op_screenshot sender u)
  then show ?thesis using assms step_indices(3,4) consistent_cong by blast
next
  case (Op_stop sender u)
  then show ?thesis using assms step_indices(5,6) consistent_cong by blast
next
  case (Op_heartbeat sender u)
  then show ?thesis using assms step_indices(7,8) consistent_cong by blast
next
  case (Op_get_task req now)
  then show ?thesis using assms step_indices(9,10) consistent_cong by blast
next
  case (Op_report_status env req)
  then show ?thesis using assms step_indices(11,12) consistent_cong by blast
qed

lemma consistent_run: "consistent s \<Longrightarrow> consistent (run s ops)"
  unfolding run_def by (induction ops arbitrary: s) (simp_all add: consistent_step)


text \<open>
  C2. Bijection invariant. From a state whose two indices agree (the state of \<open>__init__\<close>
  without a bindings file is one), every run of operations, binds and unbinds among them,
  leads to a state in which the device of a sender's binding leads back to that sender,
  every device of the inverse index is the device of its sender's binding, and two
  senders never hold the same device. A sender, being the key of \<open>bindings\<close>, has at
  most one binding.
\<close>

theorem binding_indices_bijective:
  assumes "consistent s"
  shows "(bindings (run s ops) sender = Some b \<longrightarrow>
            device_to_sender (run s ops) (device_id b) = Some sender)
         \<and> (device_to_sender (run s ops) device = Some owner \<longrightarrow>
            (\<exists>b'. bindings (run s ops) owner = Some b' \<and> device_id b' = device))
         \<and> (bindings (run s ops) sender = Some b \<and> bindings (run s ops) sender' = Some b'
              \<and> device_id b = device_id b' \<longrightarrow> sender = sender')
         \<and> consistent (init auto)"
proof -
  have c: "consistent (run s ops)" using assms by (rule consistent_run)
  have a: "\<And>snd b. bindings (run s ops) snd = Some b \<Longrightarrow>
             device_to_sender (run s ops) (device_id b) = Some snd"
    and b: "\<And>d snd. device_to_sender (run s ops) d = Some snd \<Longrightarrow>
             \<exists>b. bindings (run s ops) snd = Some b \<and> device_id b = d"
    using c unfolding consistent_def by blast+
  have inj: "bindings (run s ops) sender = Some b \<and> bindings (run s ops) sender' = Some b'
              \<and> device_id b = device_id b' \<longrightarrow> sender = sender'"
  proof
    assume h: "bindings (run s ops) sender = Some b \<and> bindings (run s ops) sender' = Some b'
              \<and> device_id b = device_id b'"
    have "device_to_sender (run s ops) (device_id b) = Some sender"
      using h a [of sender b] by simp
    moreover have "device_to_sender (run s ops) (device_id b) = Some sender'"
      using h a [of sender' b'] by simp
    ultimately show "sender = sender'" by simp
  qed
  show ?thesis using a b inj consistent_init by blast
qed

lemma run_two_binds:
  "bindings (run (init True) two_binds) ''U3'' =
     Some \<lparr>device_id = ''D1'', user_id = ''U3'', umo = ''chan3''\<rparr>"
  "bindings (run (init True) two_binds) ''U1'' = None"
  "device_to_sender (run (init True) two_binds) ''D1'' = Some ''U3''"
  by (simp_all add: run_def two_binds_def init_def maa_bind_def maa_unbind_def Let_def)

theorem binding_indices_bijective_witness:
  "consistent (init True)
   \<and> bindings (run (init True) two_binds) ''U3''
       = Some \<lparr>device_id = ''D1'', user_id = ''U3'', umo = ''chan3''\<rparr>
   \<and> device_to_sender (run (init True) two_binds) ''D1'' = Some ''U3''
   \<and> bindings (run (init True) two_binds) ''U1'' = None"
  using binding_indices_bijective [of "init True" two_binds "''U3''"
      "\<lparr>device_id = ''D1'', user_id = ''U3'', umo = ''chan3''\<rparr>" "''D1''" "''U3''"
      "''U3''" "\<lparr>device_id = ''D1'', user_id = ''U3'', umo = ''chan3''\<rparr>" True]
  by (simp add: run_two_binds consistent_init)

subsection \<open>Delivery\<close>

lemma pending_iff:
  "t \<in> set (pending_tasks s d) \<longleftrightarrow> t \<in> set (queue_of s d) \<and> tid t \<notin> executed_of s d"
  by (simp add: pending_tasks_def Let_def)

lemma stores_bind:
  "task_queues (fst (maa_bind s sender device origin)) = task_queues s"
  "executed_tasks (fst (maa_bind s sender device origin)) = executed_tasks s"
  by (simp_all add: maa_bind_def split: option.splits)

lemma stores_get_task:
  "task_queues (fst (handle_get_task s now req)) = task_queues s"
  "executed_tasks (fst (handle_get_task s now req)) = executed_tasks s"
  "bindings (fst (handle_get_task s now req)) = bindings s"
  "device_to_sender (fst (handle_get_task s now req)) = device_to_sender s"
  by (simp_all add: handle_get_task_def Let_def split: option.splits)

lemma queue_of_add_task:
  "queue_of (fst (add_task s device ty params u1 u2)) d =
     (if d = device
      then queue_of s device
           @ [\<lparr>tid = u1, ttype = ty, tparams = (if params \<noteq> [] then Some params else None)\<rparr>]
           @ (if auto_screenshot s \<and> ty \<notin> exempt_types
              then [\<lparr>tid = u2, ttype = ''CaptureImage'', tparams = None\<rparr>] else [])
      else queue_of s d)"
  by (simp add: add_task_def queue_of_def Let_def)

lemma executed_add_task:
  "executed_tasks (fst (add_task s device ty params u1 u2)) = executed_tasks s"
  by (simp add: add_task_def Let_def)

lemma queue_of_screenshot:
  "queue_of (fst (maa_screenshot s sender u)) d =
     (case bindings s sender of
        None \<Rightarrow> queue_of s d
      | Some b \<Rightarrow>
          if d = device_id b
          then \<lparr>tid = u, ttype = ''CaptureImageNow'', tparams = None\<rparr> # queue_of s d
          else queue_of s d)"
  by (simp add: maa_screenshot_def queue_of_def Let_def split: option.splits)

lemma queue_of_stop:
  "queue_of (fst (maa_stop s sender u)) d =
     (case bindings s sender of
        None \<Rightarrow> queue_of s d
      | Some b \<Rightarrow>
          if d = device_id b
          then \<lparr>tid = u, ttype = ''StopTask'', tparams = None\<rparr> # queue_of s d
          else queue_of s d)"
  by (simp add: maa_stop_def queue_of_def Let_def split: option.splits)

lemma queue_of_heartbeat:
  "queue_of (fst (maa_heartbeat s sender u)) d =
     (case bindings s sender of
        None \<Rightarrow> queue_of s d
      | Some b \<Rightarrow>
          if d = device_id b
          then \<lparr>tid = u, ttype = ''HeartBeat'', tparams = None\<rparr> # queue_of s d
          else queue_of s d)"
  by (simp add: maa_heartbeat_def queue_of_def Let_def split: option.splits)

lemma executed_head:
  "executed_tasks (fst (maa_screenshot s sender u)) = executed_tasks s"
  "executed_tasks (fst (maa_stop s sender u)) = executed_tasks s"
  "executed_tasks (fst (maa_heartbeat s sender u)) = executed_tasks s"
  by (simp_all add: maa_screenshot_def maa_stop_def maa_heartbeat_def Let_def split: option.splits)

lemma executed_of_cong: "executed_tasks s' = executed_tasks s \<Longrightarrow> executed_of s' d = executed_of s d"
  by (simp add: executed_of_def)

lemma queue_of_cong: "task_queues s' = task_queues s \<Longrightarrow> queue_of s' d = queue_of s d"
  by (simp add: queue_of_def)

lemma stores_unbind:
  "queue_of (fst (maa_unbind s sender)) d =
     (case bindings s sender of
        None \<Rightarrow> queue_of s d
      | Some b \<Rightarrow>
          if device_to_sender s (device_id b) \<noteq> None \<and> d = device_id b then [] else queue_of s d)"
  "executed_of (fst (maa_unbind s sender)) d =
     (case bindings s sender of
        None \<Rightarrow> executed_of s d
      | Some b \<Rightarrow>
          if device_to_sender s (device_id b) \<noteq> None \<and> d = device_id b then {} else executed_of s d)"
  by (auto simp add: maa_unbind_def queue_of_def executed_of_def Let_def split: option.splits)

lemma pending_step:
  assumes "t \<in> set (pending_tasks s d)" and "\<not> acks d (tid t) x" and "\<not> unbinds s d x"
  shows "t \<in> set (pending_tasks (step s x) d)"
proof (cases x)
  case (Op_bind sender device origin)
  then show ?thesis using assms
    by (simp add: pending_iff queue_of_cong [OF stores_bind(1)] executed_of_cong [OF stores_bind(2)])
next
  case (Op_unbind sender)
  then show ?thesis using assms
    by (auto simp add: pending_iff stores_unbind split: option.splits)
next
  case (Op_add_task device ty params u1 u2)
  then show ?thesis using assms
    by (auto simp add: pending_iff queue_of_add_task executed_of_cong [OF executed_add_task])
next
  case (Op_screenshot sender u)
  then show ?thesis using assms
    by (auto simp add: pending_iff queue_of_screenshot executed_of_cong [OF executed_head(1)]
          split: option.splits)
next
  case (Op_stop sender u)
  then show ?thesis using assms
    by (auto simp add: pending_iff queue_of_stop executed_of_cong [OF executed_head(2)]
          split: option.splits)
next
  case (Op_heartbeat sender u)
  then show ?thesis using assms
    by (auto simp add: pending_iff queue_of_heartbeat executed_of_cong [OF executed_head(3)]
          split: option.splits)
next
  case (Op_get_task req now)
  then show ?thesis using assms
    by (simp add: pending_iff queue_of_cong [OF stores_get_task(1)]
          executed_of_cong [OF stores_get_task(2)])
next
  case (Op_report_status env req)
  show ?thesis
  proof (cases req)
    case None
    then show ?thesis using assms Op_report_status by (simp add: report_state_opt)
  next
    case (Some data)
    then show ?thesis using assms Op_report_status
      by (auto simp add: report_state pending_iff queue_of_acknowledge executed_of_acknowledge)
  qed
qed


lemma bound_step:
  assumes "bound_device s d" and "\<not> unbinds s d x"
  shows "bound_device (step s x) d"
proof (cases x)
  case (Op_bind sender device origin)
  then show ?thesis using assms
    by (auto simp add: bound_device_def maa_bind_def split: option.splits)
next
  case (Op_unbind sender)
  then show ?thesis using assms
    by (auto simp add: bound_device_def maa_unbind_def Let_def split: option.splits)
qed (insert assms, simp_all add: bound_device_def step_indices del: step.simps)

lemma undisturbed_run:
  "t \<in> set (pending_tasks s d) \<Longrightarrow> bound_device s d \<Longrightarrow> undisturbed d (tid t) s ops \<Longrightarrow>
   t \<in> set (pending_tasks (run s ops) d) \<and> bound_device (run s ops) d"
proof (induction ops arbitrary: s)
  case Nil
  then show ?case by (simp add: run_def)
next
  case (Cons x xs)
  have "t \<in> set (pending_tasks (step s x) d)"
    using Cons.prems by (simp add: pending_step)
  moreover have "bound_device (step s x) d"
    using Cons.prems by (simp add: bound_step)
  moreover have "undisturbed d (tid t) (step s x) xs"
    using Cons.prems by simp
  ultimately have "t \<in> set (pending_tasks (run (step s x) xs) d) \<and> bound_device (run (step s x) xs) d"
    by (rule Cons.IH)
  then show ?case by (simp add: run_def)
qed

lemma poll_bound:
  assumes "bound_device s d" and "d \<noteq> []" and "get_field poll ''device'' = d"
  shows "tasks (fst (snd (handle_get_task s now (Some poll)))) = pending_tasks s d"
  using assms
  by (auto simp add: handle_get_task_def bound_device_def pending_tasks_def queue_of_def
        executed_of_def Let_def split: option.splits)

lemma poll_any:
  assumes "get_field poll ''device'' = d"
  shows "set (tasks (fst (snd (handle_get_task s now (Some poll))))) \<subseteq> set (pending_tasks s d)"
  using assms
  by (auto simp add: handle_get_task_def pending_tasks_def queue_of_def
        executed_of_def Let_def split: option.splits)

lemma retired_step:
  assumes "retired s d i" and "i \<notin> draws x"
  shows "retired (step s x) d i"
proof (cases x)
  case (Op_bind sender device origin)
  then show ?thesis using assms
    by (simp add: retired_def queue_of_cong [OF stores_bind(1)] executed_of_cong [OF stores_bind(2)])
next
  case (Op_unbind sender)
  then show ?thesis using assms
    by (auto simp add: retired_def stores_unbind split: option.splits)
next
  case (Op_add_task device ty params u1 u2)
  then show ?thesis using assms
    by (auto simp add: retired_def queue_of_add_task executed_of_cong [OF executed_add_task])
next
  case (Op_screenshot sender u)
  then show ?thesis using assms
    by (auto simp add: retired_def queue_of_screenshot executed_of_cong [OF executed_head(1)]
          split: option.splits)
next
  case (Op_stop sender u)
  then show ?thesis using assms
    by (auto simp add: retired_def queue_of_stop executed_of_cong [OF executed_head(2)]
          split: option.splits)
next
  case (Op_heartbeat sender u)
  then show ?thesis using assms
    by (auto simp add: retired_def queue_of_heartbeat executed_of_cong [OF executed_head(3)]
          split: option.splits)
next
  case (Op_get_task req now)
  then show ?thesis using assms
    by (simp add: retired_def queue_of_cong [OF stores_get_task(1)]
          executed_of_cong [OF stores_get_task(2)])
next
  case (Op_report_status env req)
  show ?thesis
  proof (cases req)
    case None
    then show ?thesis using assms Op_report_status by (simp add: report_state_opt)
  next
    case (Some data)
    then show ?thesis using assms Op_report_status
      by (auto simp add: report_state retired_def queue_of_acknowledge executed_of_acknowledge)
  qed
qed

lemma retired_run:
  "retired s d i \<Longrightarrow> \<forall>x\<in>set ops. i \<notin> draws x \<Longrightarrow> retired (run s ops) d i"
proof (induction ops arbitrary: s)
  case Nil
  then show ?case by (simp add: run_def)
next
  case (Cons x xs)
  have "retired (step s x) d i" using Cons.prems by (simp add: retired_step)
  then have "retired (run (step s x) xs) d i" using Cons.prems by (simp add: Cons.IH)
  then show ?case by (simp add: run_def)
qed

lemma retired_not_pending: "retired s d i \<Longrightarrow> t \<in> set (pending_tasks s d) \<Longrightarrow> tid t \<noteq> i"
  by (auto simp add: retired_def pending_iff)


text \<open>
  C1. At-least-once delivery. For a device \<open>d\<close> with a non-empty id and a poll of \<open>d\<close>:
  a task enqueued by \<open>_add_task\<close> or by a head-insert command, under an id that is not in
  the executed set of \<open>d\<close>, is pending; a pending task of a device that the handler takes
  as bound (the inverse index has a non-empty sender for it) is in the answer to the poll
  after every run of operations that neither report that task id for \<open>d\<close> nor unbind
  \<open>d\<close>, polls among them; and after a report of task id \<open>i\<close> for \<open>d\<close> no answer to a
  poll of \<open>d\<close> holds a task with id \<open>i\<close>, whatever operations follow, as long as
  \<open>uuid.uuid4()\<close> does not draw \<open>i\<close> again.
\<close>

theorem at_least_once_delivery:
  assumes "d \<noteq> []" and "get_field poll ''device'' = d"
  shows "(u1 \<notin> executed_of s d \<longrightarrow>
            \<lparr>tid = u1, ttype = ty, tparams = (if params \<noteq> [] then Some params else None)\<rparr>
              \<in> set (pending_tasks (fst (add_task s d ty params u1 u2)) d))
         \<and> (bindings s sender = Some b \<and> device_id b = d \<and> u \<notin> executed_of s d \<longrightarrow>
              \<lparr>tid = u, ttype = ''CaptureImageNow'', tparams = None\<rparr>
                \<in> set (pending_tasks (fst (maa_screenshot s sender u)) d)
              \<and> \<lparr>tid = u, ttype = ''StopTask'', tparams = None\<rparr>
                \<in> set (pending_tasks (fst (maa_stop s sender u)) d)
              \<and> \<lparr>tid = u, ttype = ''HeartBeat'', tparams = None\<rparr>
                \<in> set (pending_tasks (fst (maa_heartbeat s sender u)) d))
         \<and> (t \<in> set (pending_tasks s d) \<and> bound_device s d \<and> undisturbed d (tid t) s ops \<longrightarrow>
              t \<in> set (tasks (fst (snd (handle_get_task (run s ops) now (Some poll))))))
         \<and> (get_field report ''device'' = d \<and> get_field report ''task'' = i \<and> i \<noteq> []
              \<and> (\<forall>x\<in>set ops'. i \<notin> draws x) \<longrightarrow>
              i \<notin> tid ` set (tasks (fst (snd (handle_get_task
                     (run (new_state (handle_report_status env s (Some report))) ops')
                     now' (Some poll))))))"
proof -
  have enq: "u1 \<notin> executed_of s d \<longrightarrow>
            \<lparr>tid = u1, ttype = ty, tparams = (if params \<noteq> [] then Some params else None)\<rparr>
              \<in> set (pending_tasks (fst (add_task s d ty params u1 u2)) d)"
    by (simp add: pending_iff queue_of_add_task executed_of_cong [OF executed_add_task])
  have head: "bindings s sender = Some b \<and> device_id b = d \<and> u \<notin> executed_of s d \<longrightarrow>
              \<lparr>tid = u, ttype = ''CaptureImageNow'', tparams = None\<rparr>
                \<in> set (pending_tasks (fst (maa_screenshot s sender u)) d)
              \<and> \<lparr>tid = u, ttype = ''StopTask'', tparams = None\<rparr>
                \<in> set (pending_tasks (fst (maa_stop s sender u)) d)
              \<and> \<lparr>tid = u, ttype = ''HeartBeat'', tparams = None\<rparr>
                \<in> set (pending_tasks (fst (maa_heartbeat s sender u)) d)"
    by (simp add: pending_iff queue_of_screenshot queue_of_stop queue_of_heartbeat
          executed_of_cong [OF executed_head(1)] executed_of_cong [OF executed_head(2)]
          executed_of_cong [OF executed_head(3)])
  have keep: "t \<in> set (pending_tasks s d) \<and> bound_device s d \<and> undisturbed d (tid t) s ops \<longrightarrow>
              t \<in> set (tasks (fst (snd (handle_get_task (run s ops) now (Some poll)))))"
  proof
    assume h: "t \<in> set (pending_tasks s d) \<and> bound_device s d \<and> undisturbed d (tid t) s ops"
    then have "t \<in> set (pending_tasks (run s ops) d) \<and> bound_device (run s ops) d"
      using undisturbed_run [of t s d ops] by blast
    then have p: "t \<in> set (pending_tasks (run s ops) d)" and bd: "bound_device (run s ops) d"
      by blast+
    have "tasks (fst (snd (handle_get_task (run s ops) now (Some poll)))) = pending_tasks (run s ops) d"
      using bd assms by (rule poll_bound)
    then show "t \<in> set (tasks (fst (snd (handle_get_task (run s ops) now (Some poll)))))"
      using p by simp
  qed
  have gone: "get_field report ''device'' = d \<and> get_field report ''task'' = i \<and> i \<noteq> []
              \<and> (\<forall>x\<in>set ops'. i \<notin> draws x) \<longrightarrow>
              i \<notin> tid ` set (tasks (fst (snd (handle_get_task
                     (run (new_state (handle_report_status env s (Some report))) ops')
                     now' (Some poll)))))"
  proof
    assume h: "get_field report ''device'' = d \<and> get_field report ''task'' = i \<and> i \<noteq> []
              \<and> (\<forall>x\<in>set ops'. i \<notin> draws x)"
    let ?s1 = "new_state (handle_report_status env s (Some report))"
    have "?s1 = acknowledge s d i" using h assms by (simp add: report_state)
    then have "retired ?s1 d i" by (simp add: retired_def executed_of_acknowledge)
    then have r: "retired (run ?s1 ops') d i" using h by (simp add: retired_run)
    have "\<And>t'. t' \<in> set (tasks (fst (snd (handle_get_task (run ?s1 ops') now' (Some poll)))))
            \<Longrightarrow> tid t' \<noteq> i"
      using poll_any [OF assms(2)] retired_not_pending [OF r] by blast
    then show "i \<notin> tid ` set (tasks (fst (snd (handle_get_task (run ?s1 ops') now' (Some poll)))))"
      by blast
  qed
  show ?thesis using enq head keep gone by simp
qed

lemma st_bound:
  "bound_state = \<lparr>auto_screenshot = True,
     bindings = [''U1'' \<mapsto> \<lparr>device_id = ''D1'', user_id = ''U1'', umo = ''chan1''\<rparr>],
     device_to_sender = [''D1'' \<mapsto> ''U1''], task_queues = Map.empty,
     executed_tasks = Map.empty, device_last_seen = Map.empty\<rparr>"
  by (simp add: bound_state_def init_def maa_bind_def)

lemma st_queued:
  "queue_of queued_state ''D1'' = [combat_task, \<lparr>tid = ''t2'', ttype = ''CaptureImage'', tparams = None\<rparr>]"
  "executed_of queued_state ''D1'' = {}"
  "bound_device queued_state ''D1''"
  by (simp_all add: queued_state_def st_bound add_task_def queue_of_def executed_of_def
        exempt_types_def combat_task_def bound_device_def Let_def)

lemma poll_busy:
  "undisturbed ''D1'' ''t1'' queued_state busy_ops"
  "tasks (fst (snd (handle_get_task (run queued_state busy_ops) 2 (Some poll_D1))))
     = [\<lparr>tid = ''t3'', ttype = ''StopTask'', tparams = None\<rparr>, combat_task]"
  by (simp_all add: busy_ops_def run_def queued_state_def st_bound add_task_def queue_of_def
        executed_of_def exempt_types_def combat_task_def handle_get_task_def poll_D1_def
        report_for_def get_field_def report_state acknowledge_def maa_stop_def
        pending_tasks_def Let_def)

lemma poll_later:
  "tasks (fst (snd (handle_get_task
      (run (new_state (handle_report_status env_ok queued_state (Some (report_for ''t1'' ''done'' []))))
         later_ops) 3 (Some poll_D1))))
     = [\<lparr>tid = ''t6'', ttype = ''HeartBeat'', tparams = None\<rparr>]"
  by (simp add: later_ops_def run_def queued_state_def st_bound add_task_def queue_of_def
        executed_of_def exempt_types_def combat_task_def handle_get_task_def poll_D1_def
        report_for_def get_field_def report_state acknowledge_def maa_heartbeat_def
        maa_unbind_def maa_bind_def pending_tasks_def Let_def)


lemma st_queued_bindings:
  "bindings queued_state ''U1'' = Some \<lparr>device_id = ''D1'', user_id = ''U1'', umo = ''chan1''\<rparr>"
  by (simp add: queued_state_def st_bound add_task_def Let_def)

lemma st_queued_pending:
  "combat_task \<in> set (pending_tasks queued_state ''D1'')"
  "tid combat_task = ''t1''"
  by (simp_all add: pending_iff st_queued, simp add: combat_task_def)

lemma st_requests:
  "get_field poll_D1 ''device'' = ''D1''"
  "get_field (report_for ''t1'' ''done'' []) ''device'' = ''D1''"
  "get_field (report_for ''t1'' ''done'' []) ''task'' = ''t1''"
  "\<forall>x\<in>set later_ops. ''t1'' \<notin> draws x"
  by (simp_all add: poll_D1_def report_for_def get_field_def later_ops_def)

theorem at_least_once_delivery_witness:
  "get_field poll_D1 ''device'' = ''D1''
   \<and> ''t9'' \<notin> executed_of queued_state ''D1''
   \<and> bindings queued_state ''U1'' = Some \<lparr>device_id = ''D1'', user_id = ''U1'', umo = ''chan1''\<rparr>
   \<and> combat_task \<in> set (pending_tasks queued_state ''D1'')
   \<and> bound_device queued_state ''D1''
   \<and> undisturbed ''D1'' (tid combat_task) queued_state busy_ops
   \<and> combat_task \<in> set (tasks (fst (snd (handle_get_task (run queued_state busy_ops) 2 (Some poll_D1)))))
   \<and> get_field (report_for ''t1'' ''done'' []) ''task'' = ''t1''
   \<and> ''t1'' \<notin> tid ` set (tasks (fst (snd (handle_get_task
         (run (new_state (handle_report_status env_ok queued_state (Some (report_for ''t1'' ''done'' []))))
            later_ops) 3 (Some poll_D1)))))"
  using at_least_once_delivery [where d = "''D1''" and poll = poll_D1 and s = queued_state
      and ?u1.0 = "''t9''" and u = "''t9''" and sender = "''U1''"
      and b = "\<lparr>device_id = ''D1'', user_id = ''U1'', umo = ''chan1''\<rparr>"
      and t = combat_task and ops = busy_ops and now = 2
      and report = "report_for ''t1'' ''done'' []" and i = "''t1''" and ops' = later_ops
      and env = env_ok and now' = 3]
  by (simp add: st_queued st_queued_bindings st_queued_pending st_requests poll_busy)

subsection \<open>Enqueueing and the automatic screenshot\<close>

text \<open>
  C3, as amended. With \<open>auto_screenshot\<close> on, \<open>_add_task\<close> of a type outside
  \<open>CaptureImage\<close>, \<open>CaptureImageNow\<close>, \<open>HeartBeat\<close> appends two tasks to the device's queue,
  the requested one under the first id drawn and a \<open>CaptureImage\<close> task under the second;
  \<open>_add_task\<close> of an exempt type appends the requested task alone. The screenshot task is
  appended by the same call, not by a further \<open>_add_task\<close>, and its type is exempt. The
  head-insert commands put one task at the head of the queue and nothing else, also
  \<open>maa_stop\<close>, whose type \<open>StopTask\<close> is not exempt.
\<close>

theorem auto_screenshot_injection:
  assumes "auto_screenshot s"
  shows "(ty \<notin> exempt_types \<longrightarrow>
            queue_of (fst (add_task s d ty params u1 u2)) d
              = queue_of s d
                @ [\<lparr>tid = u1, ttype = ty, tparams = (if params \<noteq> [] then Some params else None)\<rparr>,
                   \<lparr>tid = u2, ttype = ''CaptureImage'', tparams = None\<rparr>])
         \<and> (ty \<in> exempt_types \<longrightarrow>
            queue_of (fst (add_task s d ty params u1 u2)) d
              = queue_of s d
                @ [\<lparr>tid = u1, ttype = ty, tparams = (if params \<noteq> [] then Some params else None)\<rparr>])
         \<and> ''CaptureImage'' \<in> exempt_types
         \<and> (bindings s sender = Some b \<longrightarrow>
              queue_of (fst (maa_stop s sender u)) (device_id b)
                = \<lparr>tid = u, ttype = ''StopTask'', tparams = None\<rparr> # queue_of s (device_id b)
              \<and> queue_of (fst (maa_screenshot s sender u)) (device_id b)
                = \<lparr>tid = u, ttype = ''CaptureImageNow'', tparams = None\<rparr> # queue_of s (device_id b)
              \<and> queue_of (fst (maa_heartbeat s sender u)) (device_id b)
                = \<lparr>tid = u, ttype = ''HeartBeat'', tparams = None\<rparr> # queue_of s (device_id b))"
  using assms
  by (simp add: queue_of_add_task queue_of_stop queue_of_screenshot queue_of_heartbeat
        exempt_types_def)

theorem auto_screenshot_injection_witness:
  "auto_screenshot bound_state \<and> ''LinkStart-Combat'' \<notin> exempt_types
   \<and> queue_of (fst (add_task bound_state ''D1'' ''LinkStart-Combat'' [] ''t1'' ''t2'')) ''D1''
       = [\<lparr>tid = ''t1'', ttype = ''LinkStart-Combat'', tparams = None\<rparr>,
          \<lparr>tid = ''t2'', ttype = ''CaptureImage'', tparams = None\<rparr>]
   \<and> bindings bound_state ''U1'' = Some \<lparr>device_id = ''D1'', user_id = ''U1'', umo = ''chan1''\<rparr>
   \<and> queue_of (fst (maa_stop bound_state ''U1'' ''t3'')) ''D1''
       = [\<lparr>tid = ''t3'', ttype = ''StopTask'', tparams = None\<rparr>]
   \<and> ''HeartBeat'' \<in> exempt_types
   \<and> queue_of (fst (add_task bound_state ''D1'' ''HeartBeat'' [] ''t1'' ''t2'')) ''D1''
       = [\<lparr>tid = ''t1'', ttype = ''HeartBeat'', tparams = None\<rparr>]"
  using auto_screenshot_injection [where s = bound_state and ty = "''HeartBeat''"
      and d = "''D1''" and params = "[]" and ?u1.0 = "''t1''" and ?u2.0 = "''t2''"]
    auto_screenshot_injection [where s = bound_state and ty = "''LinkStart-Combat''"
      and d = "''D1''" and params = "[]" and ?u1.0 = "''t1''" and ?u2.0 = "''t2''"
      and sender = "''U1''" and u = "''t3''"
      and b = "\<lparr>device_id = ''D1'', user_id = ''U1'', umo = ''chan1''\<rparr>"]
  by (simp add: exempt_types_def st_bound queue_of_def)


text \<open>
  The claim as stated fails for the head insertion of \<open>maa_stop\<close>: with the policy on and
  the type \<open>StopTask\<close> outside the exempt set, the queue holds one task afterwards, not two.
\<close>

theorem stop_enqueues_one_task_counterexample:
  "auto_screenshot bound_state \<and> ''StopTask'' \<notin> exempt_types
   \<and> queue_of bound_state ''D1'' = []
   \<and> queue_of (fst (maa_stop bound_state ''U1'' ''t1'')) ''D1''
       = [\<lparr>tid = ''t1'', ttype = ''StopTask'', tparams = None\<rparr>]
   \<and> length (queue_of (fst (maa_stop bound_state ''U1'' ''t1'')) ''D1'') \<noteq> 2"
  by (simp add: st_bound queue_of_stop exempt_types_def, simp add: queue_of_def)

subsection \<open>Notifications\<close>

lemma st_bound_target:
  "notify_target (acknowledge bound_state ''D1'' i) ''D1'' = Some ''chan1''"
  by (simp add: notify_target_def st_bound indices_acknowledge)

lemma report_valid:
  assumes "get_field data ''device'' = d" and "get_field data ''task'' = i" and "d \<noteq> []" and "i \<noteq> []"
    and "notify_target (acknowledge s d i) d = Some dest"
  shows "handle_report_status env s (Some data) =
     (let s1 = acknowledge s d i;
          status = get_field data ''status'';
          payload = get_field data ''payload''
      in if length payload > 100
         then (let r = send_screenshot env dest payload (Task_done status)
               in case raised r of
                    None \<Rightarrow> \<lparr>new_state = s1, awaited = effects r, jobs = spawned r, response = Inr 200\<rparr>
                  | Some e \<Rightarrow>
                      (case send_message env dest [Plain (Task_done_screenshot_failed status e)] of
                         None \<Rightarrow>
                           \<lparr>new_state = s1,
                            awaited = effects r @ [Error_logged e,
                              Message_sent dest [Plain (Task_done_screenshot_failed status e)]],
                            jobs = spawned r, response = Inr 200\<rparr>
                       | Some e' \<Rightarrow>
                           \<lparr>new_state = s1, awaited = effects r @ [Error_logged e], jobs = spawned r,
                            response = Inl e'\<rparr>))
         else (case send_message env dest [Plain (Task_done status)] of
                 None \<Rightarrow>
                   \<lparr>new_state = s1, awaited = [Message_sent dest [Plain (Task_done status)]], jobs = [],
                    response = Inr 200\<rparr>
               | Some e \<Rightarrow> \<lparr>new_state = s1, awaited = [], jobs = [], response = Inl e\<rparr>))"
proof -
  have "length (get_field data ''payload'') > 100 \<Longrightarrow> get_field data ''payload'' \<noteq> []"
    by auto
  then show ?thesis
    using assms by (auto simp add: handle_report_status_def Let_def split: option.splits)
qed

lemma send_screenshot_cases:
  "send_screenshot env dest payload message =
     (case b64decode env payload of
        Inl e \<Rightarrow> \<lparr>effects = [], spawned = [], raised = Some e\<rparr>
      | Inr image_data \<Rightarrow>
          (case write_file env (temp_path (uuid_hex env)) image_data of
             Some e \<Rightarrow> \<lparr>effects = [], spawned = [], raised = Some e\<rparr>
           | None \<Rightarrow>
               (case send_message env dest [Plain message, Image_file (temp_path (uuid_hex env))] of
                  Some e \<Rightarrow>
                    \<lparr>effects = [File_written (temp_path (uuid_hex env)) image_data], spawned = [],
                     raised = Some e\<rparr>
                | None \<Rightarrow>
                    \<lparr>effects = [File_written (temp_path (uuid_hex env)) image_data,
                       Message_sent dest [Plain message, Image_file (temp_path (uuid_hex env))]],
                     spawned = [Delete_temp_file (temp_path (uuid_hex env)) 30], raised = None\<rparr>)))"
  by (simp add: send_screenshot_def Let_def split: sum.splits option.splits)


lemma report_for_fields:
  "get_field (report_for i st p) ''device'' = ''D1''"
  "get_field (report_for i st p) ''task'' = i"
  "get_field (report_for i st p) ''status'' = st"
  "get_field (report_for i st p) ''payload'' = p"
  by (simp_all add: report_for_def get_field_def)

lemma payload_lengths:
  "length long_payload = 101" "length short_payload = 100"
  by code_simp+

lemma long_payload_decodes: "b64decode_std long_payload = Inr long_image"
  by code_simp

lemma env_fields:
  "b64decode env_ok long_payload = Inr long_image"
  "write_file env_ok path bytes = None"
  "send_message env_ok dest chain = None"
  "temp_path (uuid_hex env_ok) = ''data/astrbot_plugin_maa/temp/screenshot_01234567.png''"
  "b64decode env_channel_down long_payload = Inr long_image"
  "write_file env_channel_down path bytes = None"
  "send_message env_channel_down dest chain = Some ''channel closed''"
  "temp_path (uuid_hex env_channel_down) = ''data/astrbot_plugin_maa/temp/screenshot_01234567.png''"
  "b64decode env_image_refused long_payload = Inr long_image"
  "write_file env_image_refused path bytes = None"
  "send_message env_image_refused dest [c] = None"
  "send_message env_image_refused dest [c, c'] = Some ''image refused''"
  "temp_path (uuid_hex env_image_refused) = ''data/astrbot_plugin_maa/temp/screenshot_01234567.png''"
  by (simp_all add: env_ok_def env_channel_down_def env_image_refused_def temp_path_def
        long_payload_decodes)

lemma report_bound_state:
  "handle_report_status env bound_state (Some (report_for ''t1'' st p)) =
     (if length p > 100
      then (case raised (send_screenshot env ''chan1'' p (Task_done st)) of
              None \<Rightarrow>
                \<lparr>new_state = acknowledge bound_state ''D1'' ''t1'',
                 awaited = effects (send_screenshot env ''chan1'' p (Task_done st)),
                 jobs = spawned (send_screenshot env ''chan1'' p (Task_done st)),
                 response = Inr 200\<rparr>
            | Some e \<Rightarrow>
                (case send_message env ''chan1'' [Plain (Task_done_screenshot_failed st e)] of
                   None \<Rightarrow>
                     \<lparr>new_state = acknowledge bound_state ''D1'' ''t1'',
                      awaited = effects (send_screenshot env ''chan1'' p (Task_done st))
                        @ [Error_logged e,
                           Message_sent ''chan1'' [Plain (Task_done_screenshot_failed st e)]],
                      jobs = spawned (send_screenshot env ''chan1'' p (Task_done st)),
                      response = Inr 200\<rparr>
                 | Some e' \<Rightarrow>
                     \<lparr>new_state = acknowledge bound_state ''D1'' ''t1'',
                      awaited = effects (send_screenshot env ''chan1'' p (Task_done st))
                        @ [Error_logged e],
                      jobs = spawned (send_screenshot env ''chan1'' p (Task_done st)),
                      response = Inl e'\<rparr>))
      else (case send_message env ''chan1'' [Plain (Task_done st)] of
              None \<Rightarrow>
                \<lparr>new_state = acknowledge bound_state ''D1'' ''t1'',
                 awaited = [Message_sent ''chan1'' [Plain (Task_done st)]], jobs = [],
                 response = Inr 200\<rparr>
            | Some e \<Rightarrow>
                \<lparr>new_state = acknowledge bound_state ''D1'' ''t1'', awaited = [], jobs = [],
                 response = Inl e\<rparr>))"
  using report_valid [where data = "report_for ''t1'' st p" and d = "''D1''" and i = "''t1''"
      and s = bound_state and dest = "''chan1''" and env = env]
  by (simp add: report_for_fields st_bound_target Let_def)

lemma eval_short:
  "handle_report_status env_ok bound_state (Some (report_for ''t1'' ''done'' short_payload))
     = \<lparr>new_state = acknowledge bound_state ''D1'' ''t1'',
        awaited = [Message_sent ''chan1'' [Plain (Task_done ''done'')]], jobs = [],
        response = Inr 200\<rparr>"
  by (simp add: report_bound_state report_for_fields payload_lengths env_fields)

lemma eval_long:
  "handle_report_status env_ok bound_state (Some (report_for ''t1'' ''done'' long_payload))
     = \<lparr>new_state = acknowledge bound_state ''D1'' ''t1'',
        awaited = [File_written ''data/astrbot_plugin_maa/temp/screenshot_01234567.png'' long_image,
          Message_sent ''chan1'' [Plain (Task_done ''done''),
            Image_file ''data/astrbot_plugin_maa/temp/screenshot_01234567.png'']],
        jobs = [Delete_temp_file ''data/astrbot_plugin_maa/temp/screenshot_01234567.png'' 30],
        response = Inr 200\<rparr>"
  by (simp add: report_bound_state report_for_fields payload_lengths env_fields send_screenshot_cases)

text \<open>
  C9. Payload threshold. For a report of a device with a channel to notify: a payload of
  at most 100 characters leads to the text-only chain (and to no job), and any other
  payload of at most 100 characters gives the same result; a payload of more than 100
  characters is decoded as an image, and then either the chain with text and image file
  is sent (when decoding, writing and sending succeed) or, when decoding fails, the text
  that reports the failure. Nothing but the length of the payload decides between the two.
\<close>

theorem payload_threshold:
  assumes "get_field data ''device'' = d" and "get_field data ''task'' = i" and "d \<noteq> []"
    and "i \<noteq> []" and "notify_target (acknowledge s d i) d = Some dest"
    and "get_field data ''status'' = st" and "get_field data ''payload'' = payload"
  shows "(length payload \<le> 100 \<longrightarrow>
            jobs (handle_report_status env s (Some data)) = []
            \<and> (send_message env dest [Plain (Task_done st)] = None \<longrightarrow>
                 awaited (handle_report_status env s (Some data))
                   = [Message_sent dest [Plain (Task_done st)]])
            \<and> (send_message env dest [Plain (Task_done st)] \<noteq> None \<longrightarrow>
                 awaited (handle_report_status env s (Some data)) = [])
            \<and> (length other \<le> 100 \<longrightarrow>
                 handle_report_status env s (Some (data(''payload'' \<mapsto> other)))
                   = handle_report_status env s (Some data)))
         \<and> (length payload > 100 \<longrightarrow>
              (b64decode env payload = Inr img
                \<and> write_file env (temp_path (uuid_hex env)) img = None
                \<and> send_message env dest [Plain (Task_done st), Image_file (temp_path (uuid_hex env))] = None
                \<longrightarrow> awaited (handle_report_status env s (Some data))
                      = [File_written (temp_path (uuid_hex env)) img,
                         Message_sent dest [Plain (Task_done st), Image_file (temp_path (uuid_hex env))]])
              \<and> (b64decode env payload = Inl e
                \<and> send_message env dest [Plain (Task_done_screenshot_failed st e)] = None
                \<longrightarrow> awaited (handle_report_status env s (Some data))
                      = [Error_logged e, Message_sent dest [Plain (Task_done_screenshot_failed st e)]]))"
proof -
  let ?data' = "data(''payload'' \<mapsto> other)"
  have f: "get_field ?data' ''device'' = d" "get_field ?data' ''task'' = i"
    "get_field ?data' ''status'' = st" "get_field ?data' ''payload'' = other"
    using assms by (simp_all add: get_field_def)
  have r': "length other \<le> 100 \<Longrightarrow> handle_report_status env s (Some ?data') =
     (case send_message env dest [Plain (Task_done st)] of
                 None \<Rightarrow>
                   \<lparr>new_state = acknowledge s d i, awaited = [Message_sent dest [Plain (Task_done st)]], jobs = [],
                    response = Inr 200\<rparr>
               | Some e \<Rightarrow> \<lparr>new_state = acknowledge s d i, awaited = [], jobs = [], response = Inl e\<rparr>)"
    using report_valid [OF f(1) f(2) assms(3) assms(4) assms(5), of env] f by (simp add: Let_def)
  have r: "handle_report_status env s (Some data) =
     (if length payload > 100
         then (let r = send_screenshot env dest payload (Task_done st)
               in case raised r of
                    None \<Rightarrow> \<lparr>new_state = acknowledge s d i, awaited = effects r, jobs = spawned r, response = Inr 200\<rparr>
                  | Some e \<Rightarrow>
                      (case send_message env dest [Plain (Task_done_screenshot_failed st e)] of
                         None \<Rightarrow>
                           \<lparr>new_state = acknowledge s d i,
                            awaited = effects r @ [Error_logged e,
                              Message_sent dest [Plain (Task_done_screenshot_failed st e)]],
                            jobs = spawned r, response = Inr 200\<rparr>
                       | Some e' \<Rightarrow>
                           \<lparr>new_state = acknowledge s d i, awaited = effects r @ [Error_logged e], jobs = spawned r,
                            response = Inl e'\<rparr>))
         else (case send_message env dest [Plain (Task_done st)] of
                 None \<Rightarrow>
                   \<lparr>new_state = acknowledge s d i, awaited = [Message_sent dest [Plain (Task_done st)]], jobs = [],
                    response = Inr 200\<rparr>
               | Some e \<Rightarrow> \<lparr>new_state = acknowledge s d i, awaited = [], jobs = [], response = Inl e\<rparr>))"
    using report_valid [OF assms(1) assms(2) assms(3) assms(4) assms(5), of env] assms(6,7)
    by (simp add: Let_def)
  have low: "length payload \<le> 100 \<longrightarrow>
            jobs (handle_report_status env s (Some data)) = []
            \<and> (send_message env dest [Plain (Task_done st)] = None \<longrightarrow>
                 awaited (handle_report_status env s (Some data))
                   = [Message_sent dest [Plain (Task_done st)]])
            \<and> (send_message env dest [Plain (Task_done st)] \<noteq> None \<longrightarrow>
                 awaited (handle_report_status env s (Some data)) = [])
            \<and> (length other \<le> 100 \<longrightarrow>
                 handle_report_status env s (Some ?data') = handle_report_status env s (Some data))"
    using r r' by (auto split: option.splits)
  have high: "length payload > 100 \<longrightarrow>
              (b64decode env payload = Inr img
                \<and> write_file env (temp_path (uuid_hex env)) img = None
                \<and> send_message env dest [Plain (Task_done st), Image_file (temp_path (uuid_hex env))] = None
                \<longrightarrow> awaited (handle_report_status env s (Some data))
                      = [File_written (temp_path (uuid_hex env)) img,
                         Message_sent dest [Plain (Task_done st), Image_file (temp_path (uuid_hex env))]])
              \<and> (b64decode env payload = Inl e
                \<and> send_message env dest [Plain (Task_done_screenshot_failed st e)] = None
                \<longrightarrow> awaited (handle_report_status env s (Some data))
                      = [Error_logged e, Message_sent dest [Plain (Task_done_screenshot_failed st e)]])"
    using r by (simp add: send_screenshot_cases Let_def)
  show ?thesis using low high by blast
qed


theorem payload_threshold_witness:
  "get_field (report_for ''t1'' ''done'' short_payload) ''device'' = ''D1''
   \<and> get_field (report_for ''t1'' ''done'' short_payload) ''task'' = ''t1''
   \<and> notify_target (acknowledge bound_state ''D1'' ''t1'') ''D1'' = Some ''chan1''
   \<and> length short_payload = 100
   \<and> send_message env_ok ''chan1'' [Plain (Task_done ''done'')] = None
   \<and> awaited (handle_report_status env_ok bound_state
         (Some (report_for ''t1'' ''done'' short_payload)))
       = [Message_sent ''chan1'' [Plain (Task_done ''done'')]]
   \<and> length long_payload = 101
   \<and> b64decode env_ok long_payload = Inr long_image
   \<and> awaited (handle_report_status env_ok bound_state
         (Some (report_for ''t1'' ''done'' long_payload)))
       = [File_written ''data/astrbot_plugin_maa/temp/screenshot_01234567.png'' long_image,
          Message_sent ''chan1'' [Plain (Task_done ''done''),
            Image_file ''data/astrbot_plugin_maa/temp/screenshot_01234567.png'']]"
  using payload_threshold [where data = "report_for ''t1'' ''done'' short_payload"
      and d = "''D1''" and i = "''t1''" and s = bound_state and dest = "''chan1''"
      and st = "''done''" and payload = short_payload and env = env_ok and other = "[]"]
    payload_threshold [where data = "report_for ''t1'' ''done'' long_payload"
      and d = "''D1''" and i = "''t1''" and s = bound_state and dest = "''chan1''"
      and st = "''done''" and payload = long_payload and env = env_ok and img = long_image]
  by (simp add: report_for_fields payload_lengths env_fields st_bound_target)

text \<open>
  C7, as amended. \<open>_handle_report_status\<close> awaits the channel: for a report of a device
  with a channel to notify, a response with status 200 comes after a chain that the
  channel accepted, an exception that leaves the handler is one that the channel raised,
  and when the channel raises on every chain the handler returns no response. The only
  work that is not awaited is the deletion of the temp file, 30 seconds later.
\<close>

theorem report_waits_for_send:
  assumes "get_field data ''device'' = d" and "get_field data ''task'' = i" and "d \<noteq> []"
    and "i \<noteq> []" and "notify_target (acknowledge s d i) d = Some dest"
  shows "(response (handle_report_status env s (Some data)) = Inr 200 \<longrightarrow>
            (\<exists>chain. Message_sent dest chain \<in> set (awaited (handle_report_status env s (Some data)))
               \<and> send_message env dest chain = None))
         \<and> (response (handle_report_status env s (Some data)) = Inl e \<longrightarrow>
            (\<exists>chain. send_message env dest chain = Some e))
         \<and> ((\<forall>chain. send_message env dest chain \<noteq> None) \<longrightarrow>
            (\<exists>e'. response (handle_report_status env s (Some data)) = Inl e'))
         \<and> (\<forall>j\<in>set (jobs (handle_report_status env s (Some data))).
               j = Delete_temp_file (temp_path (uuid_hex env)) 30)"
  unfolding report_valid [OF assms, of env] send_screenshot_cases Let_def
  by (auto split: option.splits sum.splits if_splits)

theorem report_waits_for_send_witness:
  "get_field (report_for ''t1'' ''done'' short_payload) ''device'' = ''D1''
   \<and> get_field (report_for ''t1'' ''done'' short_payload) ''task'' = ''t1''
   \<and> notify_target (acknowledge bound_state ''D1'' ''t1'') ''D1'' = Some ''chan1''
   \<and> (\<forall>chain. send_message env_channel_down ''chan1'' chain \<noteq> None)
   \<and> (\<exists>e'. response (handle_report_status env_channel_down bound_state
         (Some (report_for ''t1'' ''done'' short_payload))) = Inl e')
   \<and> response (handle_report_status env_ok bound_state
         (Some (report_for ''t1'' ''done'' long_payload))) = Inr 200
   \<and> (\<exists>chain. Message_sent ''chan1'' chain
         \<in> set (awaited (handle_report_status env_ok bound_state
               (Some (report_for ''t1'' ''done'' long_payload)))))
   \<and> jobs (handle_report_status env_ok bound_state
         (Some (report_for ''t1'' ''done'' long_payload)))
       = [Delete_temp_file (temp_path (uuid_hex env_ok)) 30]"
  using report_waits_for_send [where data = "report_for ''t1'' ''done'' short_payload"
      and d = "''D1''" and i = "''t1''" and s = bound_state and dest = "''chan1''"
      and env = env_channel_down]
    report_waits_for_send [where data = "report_for ''t1'' ''done'' long_payload"
      and d = "''D1''" and i = "''t1''" and s = bound_state and dest = "''chan1''"
      and env = env_ok]
  by (simp add: report_for_fields env_fields st_bound_target eval_long)

text \<open>
  The claim as stated fails: with the same state and the same report, the handler returns
  200 when the channel accepts the chain and raises when the channel raises, so the
  response is not independent of the delivery.
\<close>

theorem response_depends_on_send_counterexample:
  "env_channel_down = env_ok\<lparr>send_message := (\<lambda>dest chain. Some ''channel closed'')\<rparr>
   \<and> response (handle_report_status env_ok bound_state
         (Some (report_for ''t1'' ''done'' short_payload))) = Inr 200
   \<and> response (handle_report_status env_channel_down bound_state
         (Some (report_for ''t1'' ''done'' short_payload))) = Inl ''channel closed''"
  by (simp add: report_bound_state report_for_fields payload_lengths env_fields env_channel_down_def)

text \<open>
  C8. Temp-file cleanup. For a report of a device with a channel to notify, whose payload
  has more than 100 characters and decodes, and whose temp file is written: when the
  channel raises on the chain that carries the image, the file has been written, the
  failure is logged and the text fallback is tried, but no deletion is spawned, so the
  file stays. The deletion is spawned only when the channel accepts the chain.
\<close>

theorem image_send_failure_skips_cleanup:
  assumes "get_field data ''device'' = d" and "get_field data ''task'' = i" and "d \<noteq> []"
    and "i \<noteq> []" and "notify_target (acknowledge s d i) d = Some dest"
    and "get_field data ''status'' = st" and "get_field data ''payload'' = payload"
    and "length payload > 100"
    and "b64decode env payload = Inr img"
    and "write_file env (temp_path (uuid_hex env)) img = None"
    and "send_message env dest [Plain (Task_done st), Image_file (temp_path (uuid_hex env))] = Some e"
  shows "jobs (handle_report_status env s (Some data)) = []
         \<and> awaited (handle_report_status env s (Some data))
             = File_written (temp_path (uuid_hex env)) img # Error_logged e
               # (case send_message env dest [Plain (Task_done_screenshot_failed st e)] of
                    None \<Rightarrow> [Message_sent dest [Plain (Task_done_screenshot_failed st e)]]
                  | Some e' \<Rightarrow> [])"
  unfolding report_valid [OF assms(1-5), of env] send_screenshot_cases Let_def
  using assms(6-11) by (simp split: option.splits)

theorem image_send_failure_skips_cleanup_witness:
  "get_field (report_for ''t1'' ''done'' long_payload) ''device'' = ''D1''
   \<and> get_field (report_for ''t1'' ''done'' long_payload) ''task'' = ''t1''
   \<and> notify_target (acknowledge bound_state ''D1'' ''t1'') ''D1'' = Some ''chan1''
   \<and> length long_payload = 101
   \<and> b64decode env_image_refused long_payload = Inr long_image
   \<and> write_file env_image_refused (temp_path (uuid_hex env_image_refused)) long_image = None
   \<and> send_message env_image_refused ''chan1''
        [Plain (Task_done ''done''), Image_file (temp_path (uuid_hex env_image_refused))]
       = Some ''image refused''
   \<and> jobs (handle_report_status env_image_refused bound_state
         (Some (report_for ''t1'' ''done'' long_payload))) = []
   \<and> awaited (handle_report_status env_image_refused bound_state
         (Some (report_for ''t1'' ''done'' long_payload)))
       = [File_written ''data/astrbot_plugin_maa/temp/screenshot_01234567.png'' long_image,
          Error_logged ''image refused'',
          Message_sent ''chan1'' [Plain (Task_done_screenshot_failed ''done'' ''image refused'')]]
   \<and> jobs (handle_report_status env_ok bound_state
         (Some (report_for ''t1'' ''done'' long_payload)))
       = [Delete_temp_file ''data/astrbot_plugin_maa/temp/screenshot_01234567.png'' 30]"
  using image_send_failure_skips_cleanup [where data = "report_for ''t1'' ''done'' long_payload"
      and d = "''D1''" and i = "''t1''" and s = bound_state and dest = "''chan1''"
      and st = "''done''" and payload = long_payload and env = env_image_refused
      and img = long_image and e = "''image refused''"]
  by (simp add: report_for_fields payload_lengths env_fields st_bound_target eval_long)

text \<open>
  The deletion itself tolerates a file that is gone, and swallows a failure of \<open>unlink\<close>.
\<close>

lemma delete_temp_file_tolerant:
  "path \<notin> files \<Longrightarrow> delete_temp_file unlink_error files path = (files, [])"
  "path \<in> files \<Longrightarrow> delete_temp_file None files path = (files - {path}, [])"
  "path \<in> files \<Longrightarrow> delete_temp_file (Some e) files path = (files, [e])"
  by (simp_all add: delete_temp_file_def)

end
